theory Spec2Isabelle
  imports Main "HOL-Library.Char_ord" "HOL-Library.List_Lexorder" "HOL-Library.Multiset"
begin

section \<open>Product and order catalog: data model\<close>

text \<open>
  The services of \<^verbatim>\<open>products.js\<close> and \<^verbatim>\<open>orders.js\<close> operate on two document
  collections through schema models. A document is a record; a path that may be
  \<^verbatim>\<open>undefined\<close> in the in-memory document (before validation has run) is an
  \<open>option\<close>. Payload values are taken to have the schema's type already (a string where
  the schema says String, an integer where it says Number), so casting never fails; a key
  that is absent from a payload is \<open>None\<close>. JSON \<^verbatim>\<open>null\<close> is a value of the order
  status, the one path whose validators let it pass; on the other paths it is outside
  the model. Payloads carry no \<^verbatim>\<open>_id\<close> key: the identifier of a document comes from
  the schema default \<^verbatim>\<open>cuid\<close>, and the identifier that every tag sub-document gets
  comes from the model library; the next values of both generators are explicit
  arguments. A product document carries the version key \<^verbatim>\<open>__v\<close> that the library
  adds; for order documents the version key is left out.
\<close>

text \<open>The ways an operation can fail: validation of a document on \<^verbatim>\<open>save\<close>, the
  TypeError of the runtime on a property access on \<^verbatim>\<open>null\<close>, and the duplicate-key
  error of the unique index. \<open>NotFoundError\<close> is the error the documentation of the
  services names for an absent target; no operation below produces it.\<close>

datatype error = ValidationError | TypeError | DuplicateKeyError | NotFoundError

record urls =
  regular :: "string option"
  small :: "string option"
  thumb :: "string option"

record links =
  self :: "string option"
  html :: "string option"

record user =
  user_id :: "string option"
  first_name :: "string option"
  last_name :: "string option"
  portfolio_url :: "string option"
  username :: "string option"

text \<open>A tag as a payload gives it, and the tag sub-document of a product: the schema
  declares \<^verbatim>\<open>tags\<close> as an array of sub-documents, each of which has an \<^verbatim>\<open>_id\<close>.\<close>

record tag_fields =
  f_title :: "string option"

record tag =
  t_id :: string
  title :: "string option"

record product =
  p_id :: string
  description :: "string option"
  alt_description :: "string option"
  likes :: "int option"
  urls :: urls
  links :: links
  user :: user
  tags :: "tag list"
  p_v :: nat

text \<open>The object given to \<^verbatim>\<open>Products.create\<close> and \<^verbatim>\<open>Products.edit\<close>: each top-level
  key of the schema is present or absent.\<close>

record product_fields =
  f_description :: "string option"
  f_alt_description :: "string option"
  f_likes :: "int option"
  f_urls :: "urls option"
  f_links :: "links option"
  f_user :: "user option"
  f_tags :: "tag_fields list option"

text \<open>An order document. Its \<open>products\<close> path holds identifiers in the collection and,
  after \<^verbatim>\<open>populate('products')\<close>, product documents in memory.\<close>

datatype product_refs = Ids "string list" | Populated "product list"

text \<open>A path that can hold JSON \<^verbatim>\<open>null\<close> as well as a value.\<close>

datatype 'a nullable = Null | NotNull 'a

record 'p order =
  o_id :: string
  buyerEmail :: "string option"
  products :: 'p
  status :: "string nullable"

record order_fields =
  f_buyerEmail :: "string option"
  f_products :: "string list option"
  f_status :: "string nullable option"

record db =
  Product_coll :: "product list"
  Order_coll :: "string list order list"

section \<open>The document store\<close>

text \<open>
  A collection is the list of its documents in insertion order. The operations below are
  the ones the services call: \<^verbatim>\<open>findById\<close>, \<^verbatim>\<open>find(query).sort({_id: 1}).skip(n).limit(n)\<close>,
  \<^verbatim>\<open>deleteOne({_id})\<close>, and the two halves of \<^verbatim>\<open>save\<close> (insert of a new document, which
  the unique index on \<^verbatim>\<open>_id\<close> rejects when the identifier is taken, and update of a
  loaded one). \<^verbatim>\<open>save\<close> validates the whole document first and writes nothing when
  validation fails. Strings are compared bytewise, as the database does without a
  collation. For the cursor a limit of 0 means no limit. Offsets and limits are natural
  numbers.
\<close>

definition findById :: "('a \<Rightarrow> string) \<Rightarrow> string \<Rightarrow> 'a list \<Rightarrow> 'a option" where
  "findById key i coll = List.find (\<lambda>d. key d = i) coll"

definition sort_by_id :: "('a \<Rightarrow> string) \<Rightarrow> 'a list \<Rightarrow> 'a list" where
  "sort_by_id key docs = sort_key key docs"

definition skip :: "nat \<Rightarrow> 'a list \<Rightarrow> 'a list" where
  "skip n docs = drop n docs"

definition limit_docs :: "nat \<Rightarrow> 'a list \<Rightarrow> 'a list" where
  "limit_docs n docs = (if n = 0 then docs else take n docs)"

record delete_result =
  acknowledged :: bool
  deletedCount :: nat

fun remove_first :: "('a \<Rightarrow> bool) \<Rightarrow> 'a list \<Rightarrow> 'a list" where
  "remove_first P [] = []"
| "remove_first P (d # ds) = (if P d then ds else d # remove_first P ds)"

definition deleteOne :: "('a \<Rightarrow> string) \<Rightarrow> string \<Rightarrow> 'a list \<Rightarrow> delete_result \<times> 'a list" where
  "deleteOne key i coll =
     (\<lparr>acknowledged = True, deletedCount = (if list_ex (\<lambda>d. key d = i) coll then 1 else 0)\<rparr>,
      remove_first (\<lambda>d. key d = i) coll)"

definition insertOne :: "('a \<Rightarrow> string) \<Rightarrow> 'a \<Rightarrow> 'a list \<Rightarrow> error + 'a list" where
  "insertOne key d coll =
     (if list_ex (\<lambda>e. key e = key d) coll then Inl DuplicateKeyError else Inr (coll @ [d]))"

definition updateOne :: "('a \<Rightarrow> string) \<Rightarrow> 'a \<Rightarrow> 'a list \<Rightarrow> 'a list" where
  "updateOne key d coll = map (\<lambda>e. if key e = key d then d else e) coll"

text \<open>A JavaScript string is truthy unless it is empty; an absent option is
  \<^verbatim>\<open>undefined\<close>, which is falsy.\<close>

fun truthy :: "string option \<Rightarrow> bool" where
  "truthy None = False"
| "truthy (Some s) = (s \<noteq> [])"

text \<open>The \<^verbatim>\<open>required\<close> validator: a Number must be present, a String must be present
  and non-empty.\<close>

definition required_string :: "string option \<Rightarrow> bool" where
  "required_string v = (case v of None \<Rightarrow> False | Some s \<Rightarrow> s \<noteq> [])"

definition required_number :: "int option \<Rightarrow> bool" where
  "required_number v = (v \<noteq> None)"

section \<open>Product service (products.js)\<close>

definition empty_urls :: urls where
  "empty_urls = \<lparr>regular = None, small = None, thumb = None\<rparr>"

definition empty_links :: links where
  "empty_links = \<lparr>self = None, html = None\<rparr>"

definition empty_user :: user where
  "empty_user = \<lparr>user_id = None, first_name = None, last_name = None,
                 portfolio_url = None, username = None\<rparr>"

text \<open>Casting an array of plain tag objects to sub-documents: the \<open>k\<close>-th one gets the
  \<open>k\<close>-th identifier that the generator \<open>oid\<close> yields.\<close>

definition new_tags :: "(nat \<Rightarrow> string) \<Rightarrow> tag_fields list \<Rightarrow> tag list" where
  "new_tags oid ts = map (\<lambda>(k, t). \<lparr>t_id = oid k, title = f_title t\<rparr>) (enumerate 0 ts)"

text \<open>\<^verbatim>\<open>new Product(fields)\<close>: the given keys are set; \<^verbatim>\<open>_id\<close> takes the default
  \<^verbatim>\<open>cuid()\<close>, an array path that is not given defaults to the empty array, the
  sub-paths of a nested path that is not given stay undefined, and the version key of a
  new document is 0.\<close>

definition new_Product :: "string \<Rightarrow> (nat \<Rightarrow> string) \<Rightarrow> product_fields \<Rightarrow> product" where
  "new_Product cuid oid flds =
     \<lparr>p_id = cuid,
      description = f_description flds,
      alt_description = f_alt_description flds,
      likes = f_likes flds,
      urls = (case f_urls flds of None \<Rightarrow> empty_urls | Some u \<Rightarrow> u),
      links = (case f_links flds of None \<Rightarrow> empty_links | Some l \<Rightarrow> l),
      user = (case f_user flds of None \<Rightarrow> empty_user | Some u \<Rightarrow> u),
      tags = (case f_tags flds of None \<Rightarrow> [] | Some ts \<Rightarrow> new_tags oid ts),
      p_v = 0\<rparr>"

text \<open>Validation of a product document against the schema of \<^verbatim>\<open>products.js\<close>.\<close>

definition validate_product :: "product \<Rightarrow> bool" where
  "validate_product p =
     (required_number (likes p)
      \<and> required_string (regular (urls p))
      \<and> required_string (small (urls p))
      \<and> required_string (thumb (urls p))
      \<and> required_string (self (links p))
      \<and> required_string (html (links p))
      \<and> required_string (user_id (user p))
      \<and> required_string (first_name (user p))
      \<and> required_string (username (user p))
      \<and> list_all (\<lambda>t. required_string (title t)) (tags p))"

record product_list_options =
  offset :: "nat option"
  limit :: "nat option"
  tag :: "string option"

definition default :: "'a \<Rightarrow> 'a option \<Rightarrow> 'a" where
  "default d v = (case v of None \<Rightarrow> d | Some x \<Rightarrow> x)"

text \<open>The condition \<^verbatim>\<open>{$elemMatch: {title: tag}}\<close> on the \<^verbatim>\<open>tags\<close> array.\<close>

definition tags_elemMatch :: "string \<Rightarrow> product \<Rightarrow> bool" where
  "tags_elemMatch t p = list_ex (\<lambda>tg. title tg = Some t) (tags p)"

text \<open>\<^verbatim>\<open>tag ? {tags: {$elemMatch: {title: tag}}} : {}\<close>; the empty query matches every
  document.\<close>

definition product_query :: "string option \<Rightarrow> product \<Rightarrow> bool" where
  "product_query tg =
     (if truthy tg then (case tg of Some t \<Rightarrow> tags_elemMatch t | None \<Rightarrow> (\<lambda>p. True))
      else (\<lambda>p. True))"

definition Products_list :: "product_list_options \<Rightarrow> db \<Rightarrow> product list" where
  "Products_list options s =
     (let off = default 0 (offset options);
          lim = default 25 (limit options);
          query = product_query (tag options)
      in limit_docs lim (skip off (sort_by_id p_id (filter query (Product_coll s)))))"

definition Products_get :: "string \<Rightarrow> db \<Rightarrow> product option" where
  "Products_get i s = findById p_id i (Product_coll s)"

definition Products_create ::
  "string \<Rightarrow> (nat \<Rightarrow> string) \<Rightarrow> product_fields \<Rightarrow> db \<Rightarrow> (error + product) \<times> db" where
  "Products_create cuid oid flds s =
     (let p = new_Product cuid oid flds
      in if \<not> validate_product p then (Inl ValidationError, s)
         else (case insertOne p_id p (Product_coll s) of
                 Inl e \<Rightarrow> (Inl e, s)
               | Inr coll \<Rightarrow> (Inr p, s\<lparr>Product_coll := coll\<rparr>)))"

text \<open>\<^verbatim>\<open>Object.keys(change).forEach(key => product[key] = change[key])\<close>: each key present
  in the change replaces the whole path of the document; a given tag array is cast to
  new sub-documents.\<close>

definition assign_product :: "(nat \<Rightarrow> string) \<Rightarrow> product_fields \<Rightarrow> product \<Rightarrow> product" where
  "assign_product oid change p =
     p\<lparr>description := (case f_description change of None \<Rightarrow> description p | Some v \<Rightarrow> Some v),
       alt_description := (case f_alt_description change of None \<Rightarrow> alt_description p | Some v \<Rightarrow> Some v),
       likes := (case f_likes change of None \<Rightarrow> likes p | Some v \<Rightarrow> Some v),
       urls := default (urls p) (f_urls change),
       links := default (links p) (f_links change),
       user := default (user p) (f_user change),
       tags := (case f_tags change of None \<Rightarrow> tags p | Some ts \<Rightarrow> new_tags oid ts)\<rparr>"

text \<open>\<^verbatim>\<open>save\<close> of a loaded document increments the version key when it writes a whole
  array. The assigned tag array is written unless it equals the one it replaces, which
  with new sub-document identifiers happens only when both are empty.\<close>

definition tags_modified :: "product_fields \<Rightarrow> product \<Rightarrow> bool" where
  "tags_modified change p =
     (case f_tags change of None \<Rightarrow> False | Some ts \<Rightarrow> \<not> (ts = [] \<and> tags p = []))"

definition saved_version :: "product_fields \<Rightarrow> product \<Rightarrow> product \<Rightarrow> product" where
  "saved_version change loaded p =
     (if tags_modified change loaded then p\<lparr>p_v := p_v p + 1\<rparr> else p)"

text \<open>\<^verbatim>\<open>edit\<close>: when \<^verbatim>\<open>get\<close> yields \<^verbatim>\<open>null\<close>, the assignment loop (or, for an empty change,
  the call \<^verbatim>\<open>product.save()\<close>) dereferences \<^verbatim>\<open>null\<close> and throws a TypeError.\<close>

definition Products_edit ::
  "(nat \<Rightarrow> string) \<Rightarrow> string \<Rightarrow> product_fields \<Rightarrow> db \<Rightarrow> (error + product) \<times> db" where
  "Products_edit oid i change s =
     (case Products_get i s of
        None \<Rightarrow> (Inl TypeError, s)
      | Some product \<Rightarrow>
          (let p = assign_product oid change product
           in if \<not> validate_product p then (Inl ValidationError, s)
              else (let p' = saved_version change product p
                    in (Inr p', s\<lparr>Product_coll := updateOne p_id p' (Product_coll s)\<rparr>))))"

definition Products_destroy :: "string \<Rightarrow> db \<Rightarrow> delete_result \<times> db" where
  "Products_destroy i s =
     (case deleteOne p_id i (Product_coll s) of
        (r, coll) \<Rightarrow> (r, s\<lparr>Product_coll := coll\<rparr>))"

section \<open>Order service (orders.js)\<close>

definition status_enum :: "string list" where
  "status_enum = [''CREATED'', ''PENDING'', ''COMPLETED'']"

text \<open>\<^verbatim>\<open>new Order(fields)\<close>: \<^verbatim>\<open>_id\<close> defaults to \<^verbatim>\<open>cuid()\<close>, \<^verbatim>\<open>status\<close> to
  \<^verbatim>\<open>'CREATED'\<close>, and the array path \<^verbatim>\<open>products\<close> to the empty array.\<close>

definition new_Order :: "string \<Rightarrow> order_fields \<Rightarrow> product_refs order" where
  "new_Order cuid flds =
     \<lparr>o_id = cuid,
      buyerEmail = f_buyerEmail flds,
      products = Ids (default [] (f_products flds)),
      status = default (NotNull ''CREATED'') (f_status flds)\<rparr>"

text \<open>The \<^verbatim>\<open>enum\<close> validator of the \<^verbatim>\<open>status\<close> path: a string must be one of the
  listed values; \<^verbatim>\<open>null\<close> passes, and the path is not declared \<^verbatim>\<open>required\<close>, so no
  other validator looks at it.\<close>

definition enum_validator :: "string nullable \<Rightarrow> bool" where
  "enum_validator v = (case v of Null \<Rightarrow> True | NotNull x \<Rightarrow> x \<in> set status_enum)"

text \<open>
  Validation of an order document against the schema of \<^verbatim>\<open>orders.js\<close>. The option
  \<^verbatim>\<open>required: true\<close> stands inside the element declaration of \<^verbatim>\<open>products\<close>, so the
  validator runs once for each element of the array (an identifier must be a non-empty
  string; a populated document passes) and not at all for an array without elements.
\<close>

definition validate_refs :: "product_refs \<Rightarrow> bool" where
  "validate_refs r = (case r of Ids xs \<Rightarrow> list_all (\<lambda>x. x \<noteq> []) xs | Populated ps \<Rightarrow> True)"

definition validate_order :: "product_refs order \<Rightarrow> bool" where
  "validate_order d =
     (required_string (buyerEmail d)
      \<and> validate_refs (products d)
      \<and> enum_validator (status d))"

text \<open>\<^verbatim>\<open>populate('products')\<close> replaces each identifier of the array by the product
  document with that \<^verbatim>\<open>_id\<close>; an identifier that matches no product is left out of
  the populated array.\<close>

definition populate :: "db \<Rightarrow> string list \<Rightarrow> product list" where
  "populate s ids = List.map_filter (\<lambda>i. findById p_id i (Product_coll s)) ids"

definition populate_order :: "db \<Rightarrow> product_refs order \<Rightarrow> product_refs order" where
  "populate_order s d =
     (case products d of
        Ids xs \<Rightarrow> d\<lparr>products := Populated (populate s xs)\<rparr>
      | Populated ps \<Rightarrow> d)"

definition load_order :: "string list order \<Rightarrow> product_refs order" where
  "load_order e = \<lparr>o_id = o_id e, buyerEmail = buyerEmail e, products = Ids (products e),
                   status = status e\<rparr>"

record order_list_options =
  o_offset :: "nat option"
  o_limit :: "nat option"
  productId :: "string option"
  o_status :: "string option"

text \<open>\<^verbatim>\<open>{...productQuery, ...statusQuery}\<close>: \<^verbatim>\<open>{products: productId}\<close> matches an order
  whose array contains the identifier, \<^verbatim>\<open>{status: status}\<close> one with that status.\<close>

definition productQuery :: "string option \<Rightarrow> string list order \<Rightarrow> bool" where
  "productQuery pid =
     (if truthy pid then (case pid of Some i \<Rightarrow> (\<lambda>e. i \<in> set (products e)) | None \<Rightarrow> (\<lambda>e. True))
      else (\<lambda>e. True))"

definition statusQuery :: "string option \<Rightarrow> string list order \<Rightarrow> bool" where
  "statusQuery st =
     (if truthy st then (case st of Some v \<Rightarrow> (\<lambda>e. status e = NotNull v) | None \<Rightarrow> (\<lambda>e. True))
      else (\<lambda>e. True))"

definition Orders_list :: "order_list_options \<Rightarrow> db \<Rightarrow> string list order list" where
  "Orders_list options s =
     (let off = default 0 (o_offset options);
          lim = default 25 (o_limit options);
          query = (\<lambda>e. productQuery (productId options) e \<and> statusQuery (o_status options) e)
      in limit_docs lim (skip off (sort_by_id o_id (filter query (Order_coll s)))))"

definition Orders_get :: "string \<Rightarrow> db \<Rightarrow> product_refs order option" where
  "Orders_get i s = map_option (\<lambda>e. populate_order s (load_order e)) (findById o_id i (Order_coll s))"

text \<open>The document written by \<^verbatim>\<open>save\<close>: a populated array goes back as the identifiers
  of its documents when a new document is inserted; on an update only modified paths
  are written, and a path that is still populated was not modified.\<close>

definition stored_order :: "string list \<Rightarrow> product_refs order \<Rightarrow> string list order" where
  "stored_order old d =
     \<lparr>o_id = o_id d, buyerEmail = buyerEmail d,
      products = (case products d of Ids xs \<Rightarrow> xs | Populated ps \<Rightarrow> old),
      status = status d\<rparr>"

definition Orders_create :: "string \<Rightarrow> order_fields \<Rightarrow> db \<Rightarrow> (error + product_refs order) \<times> db" where
  "Orders_create cuid flds s =
     (let d = new_Order cuid flds
      in if \<not> validate_order d then (Inl ValidationError, s)
         else (case insertOne o_id (stored_order [] d) (Order_coll s) of
                 Inl e \<Rightarrow> (Inl e, s)
               | Inr coll \<Rightarrow>
                   (let s' = s\<lparr>Order_coll := coll\<rparr> in (Inr (populate_order s' d), s'))))"

definition assign_order :: "order_fields \<Rightarrow> product_refs order \<Rightarrow> product_refs order" where
  "assign_order change d =
     d\<lparr>buyerEmail := (case f_buyerEmail change of None \<Rightarrow> buyerEmail d | Some v \<Rightarrow> Some v),
       products := (case f_products change of None \<Rightarrow> products d | Some xs \<Rightarrow> Ids xs),
       status := default (status d) (f_status change)\<rparr>"

definition save_order :: "product_refs order \<Rightarrow> string list order list \<Rightarrow> string list order list" where
  "save_order d coll =
     map (\<lambda>e. if o_id e = o_id d then stored_order (products e) d else e) coll"

definition Orders_edit :: "string \<Rightarrow> order_fields \<Rightarrow> db \<Rightarrow> (error + product_refs order) \<times> db" where
  "Orders_edit i change s =
     (case Orders_get i s of
        None \<Rightarrow> (Inl TypeError, s)
      | Some order \<Rightarrow>
          (let d = assign_order change order
           in if \<not> validate_order d then (Inl ValidationError, s)
              else (Inr d, s\<lparr>Order_coll := save_order d (Order_coll s)\<rparr>)))"

definition Orders_destroy :: "string \<Rightarrow> db \<Rightarrow> db" where
  "Orders_destroy i s = s\<lparr>Order_coll := snd (deleteOne o_id i (Order_coll s))\<rparr>"

section \<open>Request handlers (api.js)\<close>

text \<open>The body given to \<^verbatim>\<open>res.json\<close>, as a JSON value.\<close>

datatype json = JBool bool | JNumber int | JString string | JObject "(string \<times> json) list"

definition delete_result_json :: "delete_result \<Rightarrow> json" where
  "delete_result_json r =
     JObject [(''acknowledged'', JBool (acknowledged r)),
              (''deletedCount'', JNumber (int (deletedCount r)))]"

text \<open>\<^verbatim>\<open>deleteProduct\<close> sends what \<^verbatim>\<open>Products.destroy\<close> returned;
  \<^verbatim>\<open>deleteOrder\<close> sends the literal \<^verbatim>\<open>{ success: true }\<close>.\<close>

definition deleteProduct :: "string \<Rightarrow> db \<Rightarrow> json \<times> db" where
  "deleteProduct i s =
     (case Products_destroy i s of (response, s') \<Rightarrow> (delete_result_json response, s'))"

definition deleteOrder :: "string \<Rightarrow> db \<Rightarrow> json \<times> db" where
  "deleteOrder i s = (JObject [(''success'', JBool True)], Orders_destroy i s)"

section \<open>Well-formed stores and sample data\<close>

text \<open>The unique index on \<^verbatim>\<open>_id\<close>: no two documents of a collection share an
  identifier.\<close>

definition wf_db :: "db \<Rightarrow> bool" where
  "wf_db s = (distinct (map p_id (Product_coll s)) \<and> distinct (map o_id (Order_coll s)))"

text \<open>A small store used to run the operations on concrete inputs: two products, of
  which only \<open>p1\<close> carries the tag \<open>studio\<close>, and one order that references \<open>p1\<close>.\<close>

definition sample_product :: product where
  "sample_product =
     \<lparr>p_id = ''p1'', description = Some ''a desk'', alt_description = None, likes = Some 3,
      urls = \<lparr>regular = Some ''r.jpg'', small = Some ''s.jpg'', thumb = Some ''t.jpg''\<rparr>,
      links = \<lparr>self = Some ''/products/p1'', html = Some ''/p1.html''\<rparr>,
      user = \<lparr>user_id = Some ''u1'', first_name = Some ''Ada'', last_name = None,
              portfolio_url = None, username = Some ''ada''\<rparr>,
      tags = [\<lparr>t_id = ''t1'', title = Some ''studio''\<rparr>], p_v = 0\<rparr>"

definition sample_order :: "string list order" where
  "sample_order = \<lparr>o_id = ''o1'', buyerEmail = Some ''a@b.com'', products = [''p1''],
                    status = NotNull ''CREATED''\<rparr>"

definition sample_db :: db where
  "sample_db =
     \<lparr>Product_coll = [sample_product\<lparr>p_id := ''p2'', tags := []\<rparr>, sample_product],
      Order_coll = [sample_order]\<rparr>"

definition empty_db :: db where
  "empty_db = \<lparr>Product_coll = [], Order_coll = []\<rparr>"

text \<open>The generator of sub-document identifiers used on the sample data.\<close>

definition sample_oid :: "nat \<Rightarrow> string" where
  "sample_oid k = CHR ''t'' # replicate k CHR ''x''"

text \<open>The fields of a product document, read as a payload: every key present, without
  the identifiers of the document and of its tags and without the version key.\<close>

definition fields_of :: "product \<Rightarrow> product_fields" where
  "fields_of p =
     \<lparr>f_description = description p, f_alt_description = alt_description p, f_likes = likes p,
      f_urls = Some (urls p), f_links = Some (links p), f_user = Some (user p),
      f_tags = Some (map (\<lambda>t. \<lparr>f_title = title t\<rparr>) (tags p))\<rparr>"

text \<open>A valid product payload that gives no \<^verbatim>\<open>tags\<close> key.\<close>

definition sample_fields :: product_fields where
  "sample_fields =
     \<lparr>f_description = Some ''a lamp'', f_alt_description = None, f_likes = Some 0,
      f_urls = Some \<lparr>regular = Some ''r.jpg'', small = Some ''s.jpg'', thumb = Some ''t.jpg''\<rparr>,
      f_links = Some \<lparr>self = Some ''/products/c1'', html = Some ''/c1.html''\<rparr>,
      f_user = Some \<lparr>user_id = Some ''u1'', first_name = Some ''Ada'', last_name = None,
                     portfolio_url = None, username = Some ''ada''\<rparr>,
      f_tags = None\<rparr>"

text \<open>The same payload with one tag.\<close>

definition sample_fields_tagged :: product_fields where
  "sample_fields_tagged = sample_fields\<lparr>f_tags := Some [\<lparr>f_title = Some ''studio''\<rparr>]\<rparr>"

text \<open>The empty change objects \<^verbatim>\<open>{}\<close> of the two services.\<close>

definition no_change :: product_fields where
  "no_change = \<lparr>f_description = None, f_alt_description = None, f_likes = None, f_urls = None,
                 f_links = None, f_user = None, f_tags = None\<rparr>"

definition order_change_none :: order_fields where
  "order_change_none = \<lparr>f_buyerEmail = None, f_products = None, f_status = None\<rparr>"

text \<open>An order payload without a status, and the sample order as \<^verbatim>\<open>get\<close> reads it.\<close>

definition sample_order_fields :: order_fields where
  "sample_order_fields = \<lparr>f_buyerEmail = Some ''a@b.com'', f_products = Some [''p1''], f_status = None\<rparr>"

definition sample_order_doc :: "product_refs order" where
  "sample_order_doc = \<lparr>o_id = ''o1'', buyerEmail = Some ''a@b.com'',
                        products = Populated [sample_product], status = NotNull ''CREATED''\<rparr>"

text \<open>A store in which the order \<open>o3\<close> references a product that does not exist, before
  one that does, and a payload with the same references.\<close>

definition sample_order_dangling :: "string list order" where
  "sample_order_dangling = \<lparr>o_id = ''o3'', buyerEmail = Some ''c@d.com'',
                             products = [''zz'', ''p1''], status = NotNull ''PENDING''\<rparr>"

definition dangling_db :: db where
  "dangling_db = sample_db\<lparr>Order_coll := [sample_order, sample_order_dangling]\<rparr>"

definition sample_order_fields_dangling :: order_fields where
  "sample_order_fields_dangling =
     \<lparr>f_buyerEmail = Some ''c@d.com'', f_products = Some [''zz'', ''p1''], f_status = None\<rparr>"

section \<open>Properties of the document store\<close>

lemma findById_Some_D: "findById key i coll = Some d \<Longrightarrow> d \<in> set coll \<and> key d = i"
  unfolding findById_def by (induction coll) (auto split: if_splits)

lemma findById_None_iff: "findById key i coll = None \<longleftrightarrow> i \<notin> key ` set coll"
  unfolding findById_def by (induction coll) auto

lemma findById_append_fresh:
  "\<not> list_ex (\<lambda>e. key e = key d) coll \<Longrightarrow> findById key (key d) (coll @ [d]) = Some d"
  unfolding findById_def by (induction coll) auto

lemma findById_append_other:
  "j \<noteq> key d \<Longrightarrow> findById key j (coll @ [d]) = findById key j coll"
  unfolding findById_def by (induction coll) auto

lemma remove_first_absent:
  "i \<notin> key ` set coll \<Longrightarrow> remove_first (\<lambda>d. key d = i) coll = coll"
  by (induction coll) auto

lemma set_remove_first:
  "distinct (map key coll) \<Longrightarrow>
     set (remove_first (\<lambda>d. key d = i) coll) = {d \<in> set coll. key d \<noteq> i}"
  by (induction coll) (auto simp: image_iff)

lemma findById_remove_first:
  "distinct (map key coll) \<Longrightarrow> findById key i (remove_first (\<lambda>d. key d = i) coll) = None"
  by (auto simp: findById_None_iff set_remove_first)

lemma findById_remove_first_other:
  "j \<noteq> i \<Longrightarrow> findById key j (remove_first (\<lambda>d. key d = i) coll) = findById key j coll"
  unfolding findById_def by (induction coll) auto

lemma set_remove_first_subset: "set (remove_first P coll) \<subseteq> set coll"
  by (induction coll) auto

lemma distinct_remove_first:
  "distinct (map key coll) \<Longrightarrow> distinct (map key (remove_first P coll))"
proof (induction coll)
  case Nil
  then show ?case by simp
next
  case (Cons d ds)
  from Cons set_remove_first_subset[of P ds] show ?case by auto
qed

lemma findById_updateOne_same:
  "findById key (key d) coll = Some e \<Longrightarrow> findById key (key d) (updateOne key d coll) = Some d"
  unfolding findById_def updateOne_def by (induction coll) (auto split: if_splits)

lemma findById_updateOne_other:
  "j \<noteq> key d \<Longrightarrow> findById key j (updateOne key d coll) = findById key j coll"
  unfolding findById_def updateOne_def by (induction coll) auto

lemma map_key_updateOne: "map key (updateOne key d coll) = map key coll"
  unfolding updateOne_def by (induction coll) auto

section \<open>Deleting\<close>

text \<open>
  Claim C9. For every identifier, also one that matches no record, \<^verbatim>\<open>destroy\<close> of the
  product service and of the order service returns without an error (the functions have
  no error result); afterwards \<^verbatim>\<open>get\<close> on that identifier yields the not-found signal,
  every other record reads as before, and deleting an identifier that matches nothing
  leaves the store as it was.
\<close>

theorem destroy_removes_record:
  assumes "wf_db s"
  shows "Products_get i (snd (Products_destroy i s)) = None
       \<and> (\<forall>j. j \<noteq> i \<longrightarrow> Products_get j (snd (Products_destroy i s)) = Products_get j s)
       \<and> (Products_get i s = None \<longrightarrow> snd (Products_destroy i s) = s)
       \<and> acknowledged (fst (Products_destroy i s))
       \<and> Orders_get i (Orders_destroy i s) = None
       \<and> (\<forall>j. j \<noteq> i \<longrightarrow> Orders_get j (Orders_destroy i s) = Orders_get j s)
       \<and> (Orders_get i s = None \<longrightarrow> Orders_destroy i s = s)
       \<and> wf_db (snd (Products_destroy i s)) \<and> wf_db (Orders_destroy i s)"
proof -
  from assms have dp: "distinct (map p_id (Product_coll s))"
    and dord: "distinct (map o_id (Order_coll s))"
    by (simp_all add: wf_db_def)
  have p1: "Products_get i (snd (Products_destroy i s)) = None"
    using dp by (simp add: Products_get_def Products_destroy_def deleteOne_def findById_remove_first)
  have p2: "\<forall>j. j \<noteq> i \<longrightarrow> Products_get j (snd (Products_destroy i s)) = Products_get j s"
    by (simp add: Products_get_def Products_destroy_def deleteOne_def findById_remove_first_other)
  have p3: "Products_get i s = None \<longrightarrow> snd (Products_destroy i s) = s"
    by (simp add: Products_get_def Products_destroy_def deleteOne_def findById_None_iff
        remove_first_absent)
  have p4: "acknowledged (fst (Products_destroy i s))"
    by (simp add: Products_destroy_def deleteOne_def)
  have o1: "Orders_get i (Orders_destroy i s) = None"
    using dord by (simp add: Orders_get_def Orders_destroy_def deleteOne_def findById_remove_first)
  have o2: "\<forall>j. j \<noteq> i \<longrightarrow> Orders_get j (Orders_destroy i s) = Orders_get j s"
    by (simp add: Orders_get_def Orders_destroy_def deleteOne_def findById_remove_first_other
        populate_order_def populate_def load_order_def)
  have o3: "Orders_get i s = None \<longrightarrow> Orders_destroy i s = s"
    by (simp add: Orders_get_def Orders_destroy_def deleteOne_def findById_None_iff
        remove_first_absent)
  have w1: "wf_db (snd (Products_destroy i s))"
    using dp dord by (simp add: wf_db_def Products_destroy_def deleteOne_def distinct_remove_first)
  have w2: "wf_db (Orders_destroy i s)"
    using dp dord by (simp add: wf_db_def Orders_destroy_def deleteOne_def distinct_remove_first)
  from p1 p2 p3 p4 o1 o2 o3 w1 w2 show ?thesis by blast
qed

theorem destroy_removes_record_witness:
  "wf_db sample_db
   \<and> Products_get ''p1'' sample_db \<noteq> None
   \<and> Products_get ''p1'' (snd (Products_destroy ''p1'' sample_db)) = None
   \<and> Products_get ''p2'' (snd (Products_destroy ''p1'' sample_db)) = Products_get ''p2'' sample_db
   \<and> Orders_get ''o1'' (Orders_destroy ''o1'' sample_db) = None
   \<and> Products_get ''zz'' sample_db = None
   \<and> snd (Products_destroy ''zz'' sample_db) = sample_db
   \<and> Orders_get ''zz'' sample_db = None
   \<and> Orders_destroy ''zz'' sample_db = sample_db"
proof -
  have wf: "wf_db sample_db" by code_simp
  have ex: "Products_get ''p1'' sample_db \<noteq> None" by code_simp
  have np: "Products_get ''zz'' sample_db = None" by code_simp
  have no: "Orders_get ''zz'' sample_db = None" by code_simp
  from destroy_removes_record [OF wf, of "''p1''"] destroy_removes_record [OF wf, of "''o1''"]
    destroy_removes_record [OF wf, of "''zz''"] wf ex np no
  show ?thesis by simp
qed

section \<open>Creating and reading back a product\<close>

lemma new_tags_title: "map title (new_tags oid ts) = map f_title ts"
proof -
  have "map title (new_tags oid ts) = map (\<lambda>x. f_title (snd x)) (enumerate 0 ts)"
    by (simp add: new_tags_def split_def)
  also have "\<dots> = map f_title (map snd (enumerate 0 ts))"
    by (simp only: map_map o_def)
  finally show ?thesis by simp
qed

lemma new_tags_t_id: "map t_id (new_tags oid ts) = map oid [0..<length ts]"
proof -
  have "map t_id (new_tags oid ts) = map (\<lambda>x. oid (fst x)) (enumerate 0 ts)"
    by (simp add: new_tags_def split_def)
  also have "\<dots> = map oid (map fst (enumerate 0 ts))"
    by (simp only: map_map o_def)
  finally show ?thesis by simp
qed

lemma validate_product_given:
  assumes "validate_product (new_Product cuid oid flds)"
  shows "f_urls flds = Some (urls (new_Product cuid oid flds))
       \<and> f_links flds = Some (links (new_Product cuid oid flds))
       \<and> f_user flds = Some (user (new_Product cuid oid flds))"
  using assms
  by (auto simp: validate_product_def new_Product_def required_string_def empty_urls_def
      empty_links_def empty_user_def split: option.splits)

lemma Products_create_ok:
  assumes "validate_product (new_Product cuid oid flds)" and "cuid \<notin> p_id ` set (Product_coll s)"
  shows "Products_create cuid oid flds s =
           (Inr (new_Product cuid oid flds),
            s\<lparr>Product_coll := Product_coll s @ [new_Product cuid oid flds]\<rparr>)"
proof -
  have id: "p_id (new_Product cuid oid flds) = cuid" by (simp add: new_Product_def)
  from assms(2) have "\<not> list_ex (\<lambda>e. p_id e = cuid) (Product_coll s)"
    by (auto simp: list_ex_iff)
  then show ?thesis using assms(1) id
    by (simp add: Products_create_def insertOne_def Let_def)
qed

text \<open>
  Claim C6 (amended). For every valid product payload and a fresh generated identifier,
  \<^verbatim>\<open>Products.create\<close> returns the new record and \<^verbatim>\<open>Products.get\<close> on the generated
  identifier reads the same record back. The record has the generated identifier and
  every input field with the value given; its \<open>tags\<close> are the given tags in order (the
  empty sequence when the payload gives none), each with the given title and with a
  generated identifier of its own; and it has the version key 0.
\<close>

theorem create_then_get:
  assumes "validate_product (new_Product cuid oid flds)" and "cuid \<notin> p_id ` set (Product_coll s)"
  shows "fst (Products_create cuid oid flds s) = Inr (new_Product cuid oid flds)
       \<and> Products_get cuid (snd (Products_create cuid oid flds s)) = Some (new_Product cuid oid flds)
       \<and> p_id (new_Product cuid oid flds) = cuid
       \<and> description (new_Product cuid oid flds) = f_description flds
       \<and> alt_description (new_Product cuid oid flds) = f_alt_description flds
       \<and> likes (new_Product cuid oid flds) = f_likes flds
       \<and> f_urls flds = Some (urls (new_Product cuid oid flds))
       \<and> f_links flds = Some (links (new_Product cuid oid flds))
       \<and> f_user flds = Some (user (new_Product cuid oid flds))
       \<and> map title (tags (new_Product cuid oid flds)) = map f_title (default [] (f_tags flds))
       \<and> map t_id (tags (new_Product cuid oid flds))
           = map oid [0..<length (default [] (f_tags flds))]
       \<and> p_v (new_Product cuid oid flds) = 0"
proof -
  have id: "p_id (new_Product cuid oid flds) = cuid" by (simp add: new_Product_def)
  from assms(2)
  have fresh: "\<not> list_ex (\<lambda>e. p_id e = p_id (new_Product cuid oid flds)) (Product_coll s)"
    by (auto simp: list_ex_iff id)
  have c: "fst (Products_create cuid oid flds s) = Inr (new_Product cuid oid flds)"
    by (simp add: Products_create_ok [OF assms])
  have g: "Products_get cuid (snd (Products_create cuid oid flds s)) = Some (new_Product cuid oid flds)"
    using findById_append_fresh [OF fresh]
    by (simp add: Products_create_ok [OF assms] Products_get_def id)
  have f: "description (new_Product cuid oid flds) = f_description flds"
    "alt_description (new_Product cuid oid flds) = f_alt_description flds"
    "likes (new_Product cuid oid flds) = f_likes flds"
    "p_v (new_Product cuid oid flds) = 0"
    by (simp_all add: new_Product_def)
  have t: "map title (tags (new_Product cuid oid flds)) = map f_title (default [] (f_tags flds))"
    by (cases "f_tags flds") (simp_all add: new_Product_def default_def new_tags_title)
  have u: "map t_id (tags (new_Product cuid oid flds))
           = map oid [0..<length (default [] (f_tags flds))]"
    by (cases "f_tags flds") (simp_all add: new_Product_def default_def new_tags_t_id)
  from c g id f t u validate_product_given [OF assms(1)] show ?thesis by simp
qed

theorem create_then_get_witness:
  "validate_product (new_Product ''c1'' sample_oid sample_fields_tagged)
   \<and> ''c1'' \<notin> p_id ` set (Product_coll sample_db)
   \<and> fst (Products_create ''c1'' sample_oid sample_fields_tagged sample_db)
       = Inr (new_Product ''c1'' sample_oid sample_fields_tagged)
   \<and> Products_get ''c1'' (snd (Products_create ''c1'' sample_oid sample_fields_tagged sample_db))
       = Some (new_Product ''c1'' sample_oid sample_fields_tagged)
   \<and> map title (tags (new_Product ''c1'' sample_oid sample_fields_tagged)) = [Some ''studio'']
   \<and> map t_id (tags (new_Product ''c1'' sample_oid sample_fields_tagged)) = [''t'']
   \<and> p_v (new_Product ''c1'' sample_oid sample_fields_tagged) = 0"
proof -
  have v: "validate_product (new_Product ''c1'' sample_oid sample_fields_tagged)" by code_simp
  have fr: "''c1'' \<notin> p_id ` set (Product_coll sample_db)" by code_simp
  have d: "map f_title (default [] (f_tags sample_fields_tagged)) = [Some ''studio'']"
    "map sample_oid [0..<length (default [] (f_tags sample_fields_tagged))] = [''t'']"
    by code_simp+
  from create_then_get [OF v fr] v fr show ?thesis by (simp add: d)
qed

text \<open>
  The claim as stated (the record read back equals the input fields plus the generated
  identifier) fails. For a valid payload without \<open>tags\<close> the record read back has the
  key, with the empty array; for a payload with a tag the record read back has an
  identifier on the tag and, in both cases, a version key, none of which the input has.
\<close>

theorem create_then_get_counterexample:
  "validate_product (new_Product ''c1'' sample_oid sample_fields)
   \<and> map_option fields_of
        (Products_get ''c1'' (snd (Products_create ''c1'' sample_oid sample_fields empty_db)))
       \<noteq> Some sample_fields
   \<and> validate_product (new_Product ''c1'' sample_oid sample_fields_tagged)
   \<and> map_option tags
        (Products_get ''c1'' (snd (Products_create ''c1'' sample_oid sample_fields_tagged empty_db)))
       = Some [\<lparr>t_id = ''t'', title = Some ''studio''\<rparr>]
   \<and> map_option p_v
        (Products_get ''c1'' (snd (Products_create ''c1'' sample_oid sample_fields_tagged empty_db)))
       = Some 0"
  by code_simp

section \<open>Editing a product\<close>

lemma p_id_assign_product: "p_id (assign_product oid change p) = p_id p"
  by (simp add: assign_product_def)

lemma Products_get_p_id: "Products_get i s = Some p \<Longrightarrow> p_id p = i"
  unfolding Products_get_def by (drule findById_Some_D) simp

lemma Products_edit_absent:
  "Products_get i s = None \<Longrightarrow> Products_edit oid i change s = (Inl TypeError, s)"
  by (simp add: Products_edit_def)

lemma Products_edit_invalid:
  "Products_get i s = Some p \<Longrightarrow> \<not> validate_product (assign_product oid change p) \<Longrightarrow>
     Products_edit oid i change s = (Inl ValidationError, s)"
  by (simp add: Products_edit_def Let_def)

lemma Products_edit_valid:
  "Products_get i s = Some p \<Longrightarrow> validate_product (assign_product oid change p) \<Longrightarrow>
     Products_edit oid i change s =
       (Inr (saved_version change p (assign_product oid change p)),
        s\<lparr>Product_coll :=
            updateOne p_id (saved_version change p (assign_product oid change p)) (Product_coll s)\<rparr>)"
  by (simp add: Products_edit_def Let_def)

lemma p_id_saved_version: "p_id (saved_version change loaded p) = p_id p"
  by (simp add: saved_version_def)

lemma saved_version_no_tags: "f_tags change = None \<Longrightarrow> saved_version change loaded p = p"
  by (simp add: saved_version_def tags_modified_def)

lemma Products_get_after_update:
  assumes "Products_get i s = Some p" and "p_id q = i"
  shows "Products_get i (s\<lparr>Product_coll := updateOne p_id q (Product_coll s)\<rparr>) = Some q"
  using assms findById_updateOne_same [of p_id q "Product_coll s" p]
  by (simp add: Products_get_def)

lemma Products_get_after_update_other:
  "j \<noteq> p_id q \<Longrightarrow>
     Products_get j (s\<lparr>Product_coll := updateOne p_id q (Product_coll s)\<rparr>) = Products_get j s"
  by (simp add: Products_get_def findById_updateOne_other)

lemma Products_edit_frame:
  "Order_coll (snd (Products_edit oid i change s)) = Order_coll s
   \<and> map p_id (Product_coll (snd (Products_edit oid i change s))) = map p_id (Product_coll s)"
  by (simp add: Products_edit_def Let_def map_key_updateOne split: option.splits)

lemma Products_edit_other:
  assumes "j \<noteq> i"
  shows "Products_get j (snd (Products_edit oid i change s)) = Products_get j s"
proof (cases "Products_get i s")
  case None
  then show ?thesis by (simp add: Products_edit_absent)
next
  case (Some p)
  have "p_id (saved_version change p (assign_product oid change p)) = i"
    using Products_get_p_id [OF Some] by (simp add: p_id_assign_product p_id_saved_version)
  with assms have ne: "j \<noteq> p_id (saved_version change p (assign_product oid change p))" by simp
  show ?thesis
  proof (cases "validate_product (assign_product oid change p)")
    case True
    then show ?thesis
      using Products_get_after_update_other [OF ne]
      by (simp add: Products_edit_valid [OF Some])
  next
    case False
    then show ?thesis by (simp add: Products_edit_invalid [OF Some])
  qed
qed

lemma assign_likes_only: "assign_product oid (no_change\<lparr>f_likes := Some n\<rparr>) p = p\<lparr>likes := Some n\<rparr>"
  by (simp add: assign_product_def no_change_def default_def)

text \<open>
  Claim C7. For every existing product, \<^verbatim>\<open>Products.edit(id, {likes: n})\<close> yields the
  loaded record with \<open>likes\<close> replaced by \<open>n\<close> and every other field as before, and
  that record is what \<^verbatim>\<open>get\<close> reads afterwards; a record that was valid stays valid, so
  the edit goes through (a stored record that fails validation in another field makes
  the edit fail with a ValidationError and leaves the store as it was). No other product
  and no order is touched.
\<close>

theorem edit_likes_changes_only_likes:
  assumes "Products_get i s = Some p"
  shows "(if validate_product (p\<lparr>likes := Some n\<rparr>)
          then fst (Products_edit oid i (no_change\<lparr>f_likes := Some n\<rparr>) s) = Inr (p\<lparr>likes := Some n\<rparr>)
             \<and> Products_get i (snd (Products_edit oid i (no_change\<lparr>f_likes := Some n\<rparr>) s))
                 = Some (p\<lparr>likes := Some n\<rparr>)
          else Products_edit oid i (no_change\<lparr>f_likes := Some n\<rparr>) s = (Inl ValidationError, s))
       \<and> (validate_product p \<longrightarrow> validate_product (p\<lparr>likes := Some n\<rparr>))
       \<and> (j \<noteq> i \<longrightarrow> Products_get j (snd (Products_edit oid i (no_change\<lparr>f_likes := Some n\<rparr>) s))
                        = Products_get j s)
       \<and> Order_coll (snd (Products_edit oid i (no_change\<lparr>f_likes := Some n\<rparr>) s)) = Order_coll s
       \<and> map p_id (Product_coll (snd (Products_edit oid i (no_change\<lparr>f_likes := Some n\<rparr>) s)))
           = map p_id (Product_coll s)"
proof -
  let ?c = "no_change\<lparr>f_likes := Some n\<rparr>"
  have a: "assign_product oid ?c p = p\<lparr>likes := Some n\<rparr>" by (rule assign_likes_only)
  have sv: "saved_version ?c p (p\<lparr>likes := Some n\<rparr>) = p\<lparr>likes := Some n\<rparr>"
    by (rule saved_version_no_tags) (simp add: no_change_def)
  have i: "p_id (p\<lparr>likes := Some n\<rparr>) = i" using Products_get_p_id [OF assms] by simp
  have main: "if validate_product (p\<lparr>likes := Some n\<rparr>)
          then fst (Products_edit oid i ?c s) = Inr (p\<lparr>likes := Some n\<rparr>)
             \<and> Products_get i (snd (Products_edit oid i ?c s)) = Some (p\<lparr>likes := Some n\<rparr>)
          else Products_edit oid i ?c s = (Inl ValidationError, s)"
  proof (cases "validate_product (p\<lparr>likes := Some n\<rparr>)")
    case True
    then show ?thesis
      using Products_edit_valid [OF assms, of oid ?c] Products_get_after_update [OF assms i]
      by (simp add: a sv)
  next
    case False
    then show ?thesis using Products_edit_invalid [OF assms, of oid ?c] by (simp add: a)
  qed
  have v: "validate_product p \<longrightarrow> validate_product (p\<lparr>likes := Some n\<rparr>)"
    by (simp add: validate_product_def required_number_def)
  have o: "j \<noteq> i \<longrightarrow> Products_get j (snd (Products_edit oid i ?c s)) = Products_get j s"
    using Products_edit_other [of j i oid ?c s] by blast
  from main v o Products_edit_frame [of oid i ?c s] show ?thesis by blast
qed

theorem edit_likes_changes_only_likes_witness:
  "Products_get ''p1'' sample_db = Some sample_product
   \<and> validate_product (sample_product\<lparr>likes := Some 5\<rparr>)
   \<and> fst (Products_edit sample_oid ''p1'' (no_change\<lparr>f_likes := Some 5\<rparr>) sample_db)
       = Inr (sample_product\<lparr>likes := Some 5\<rparr>)
   \<and> Products_get ''p1'' (snd (Products_edit sample_oid ''p1'' (no_change\<lparr>f_likes := Some 5\<rparr>) sample_db))
       = Some (sample_product\<lparr>likes := Some 5\<rparr>)
   \<and> Products_get ''p2'' (snd (Products_edit sample_oid ''p1'' (no_change\<lparr>f_likes := Some 5\<rparr>) sample_db))
       = Products_get ''p2'' sample_db"
proof -
  have g: "Products_get ''p1'' sample_db = Some sample_product" by code_simp
  have v: "validate_product (sample_product\<lparr>likes := Some 5\<rparr>)" by code_simp
  from edit_likes_changes_only_likes [OF g, of 5 sample_oid "''p2''"] g v show ?thesis by simp
qed

section \<open>Order status validation\<close>

lemma Orders_get_Some_D:
  assumes "Orders_get i s = Some d"
  shows "\<exists>e. findById o_id i (Order_coll s) = Some e
           \<and> d = \<lparr>o_id = i, buyerEmail = buyerEmail e,
                  products = Populated (populate s (products e)), status = status e\<rparr>"
proof -
  from assms obtain e where e: "findById o_id i (Order_coll s) = Some e"
    and d: "d = populate_order s (load_order e)"
    by (auto simp: Orders_get_def)
  from findById_Some_D [OF e] have "o_id e = i" by simp
  with d e show ?thesis by (simp add: populate_order_def load_order_def)
qed

lemma Orders_get_present:
  "findById o_id i (Order_coll s) = Some e \<Longrightarrow>
     Orders_get i s = Some \<lparr>o_id = o_id e, buyerEmail = buyerEmail e,
                            products = Populated (populate s (products e)), status = status e\<rparr>"
  by (simp add: Orders_get_def populate_order_def load_order_def)

lemma Orders_get_None_iff: "Orders_get i s = None \<longleftrightarrow> findById o_id i (Order_coll s) = None"
  by (simp add: Orders_get_def)

lemma Orders_edit_absent:
  "Orders_get i s = None \<Longrightarrow> Orders_edit i change s = (Inl TypeError, s)"
  by (simp add: Orders_edit_def)

lemma Orders_edit_invalid:
  "Orders_get i s = Some d \<Longrightarrow> \<not> validate_order (assign_order change d) \<Longrightarrow>
     Orders_edit i change s = (Inl ValidationError, s)"
  by (simp add: Orders_edit_def Let_def)

lemma Orders_edit_valid:
  "Orders_get i s = Some d \<Longrightarrow> validate_order (assign_order change d) \<Longrightarrow>
     Orders_edit i change s =
       (Inr (assign_order change d),
        s\<lparr>Order_coll := save_order (assign_order change d) (Order_coll s)\<rparr>)"
  by (simp add: Orders_edit_def Let_def)

lemma findById_save_order:
  "findById o_id (o_id d) coll = Some e \<Longrightarrow>
     findById o_id (o_id d) (save_order d coll) = Some (stored_order (products e) d)"
  unfolding findById_def save_order_def
  by (induction coll) (auto simp: stored_order_def split: if_splits)

lemma populate_Order_coll_update: "populate (s\<lparr>Order_coll := c\<rparr>) ids = populate s ids"
  by (simp add: populate_def)

lemma Orders_get_after_edit:
  assumes g: "Orders_get i s = Some d" and v: "validate_order (assign_order change d)"
  shows "Orders_get i (snd (Orders_edit i change s)) = Some (populate_order s (assign_order change d))"
proof -
  let ?d = "assign_order change d"
  let ?s = "s\<lparr>Order_coll := save_order ?d (Order_coll s)\<rparr>"
  from Orders_get_Some_D [OF g] obtain e where e: "findById o_id i (Order_coll s) = Some e"
    and d: "d = \<lparr>o_id = i, buyerEmail = buyerEmail e,
                 products = Populated (populate s (products e)), status = status e\<rparr>"
    by blast
  have i: "o_id ?d = i" using d by (simp add: assign_order_def)
  from e i have "findById o_id (o_id ?d) (Order_coll s) = Some e" by simp
  from findById_save_order [OF this] i
  have f: "findById o_id i (Order_coll ?s) = Some (stored_order (products e) ?d)" by simp
  have "Orders_get i ?s = Some (populate_order s ?d)"
    unfolding Orders_get_present [OF f]
    by (cases "f_products change")
       (simp_all add: stored_order_def populate_order_def assign_order_def d populate_Order_coll_update)
  then show ?thesis by (simp add: Orders_edit_valid [OF g v])
qed

lemma invalid_status_invalid_order:
  "status d = NotNull st \<Longrightarrow> st \<notin> set status_enum \<Longrightarrow> \<not> validate_order d"
  by (simp add: validate_order_def enum_validator_def)

text \<open>
  A string outside CREATED, PENDING, COMPLETED is never persisted as a status:
  \<^verbatim>\<open>create\<close> with such a status fails with a ValidationError; \<^verbatim>\<open>edit\<close> of an existing
  order with such a status (for instance \<open>BOGUS\<close>) fails with a ValidationError; in both
  cases, and also when the order to edit does not exist, the store is returned unchanged,
  so the stored record keeps its prior status.
\<close>

lemma invalid_status_rejected:
  assumes "st \<notin> {''CREATED'', ''PENDING'', ''COMPLETED''}"
  shows "Orders_create cuid (flds\<lparr>f_status := Some (NotNull st)\<rparr>) s = (Inl ValidationError, s)
       \<and> (Orders_get i s \<noteq> None \<longrightarrow>
            Orders_edit i (change\<lparr>f_status := Some (NotNull st)\<rparr>) s = (Inl ValidationError, s))
       \<and> (Orders_get i s = None \<longrightarrow>
            Orders_edit i (change\<lparr>f_status := Some (NotNull st)\<rparr>) s = (Inl TypeError, s))
       \<and> Orders_get i (snd (Orders_edit i (change\<lparr>f_status := Some (NotNull st)\<rparr>) s))
           = Orders_get i s"
proof -
  from assms have nm: "st \<notin> set status_enum"
    by (simp add: status_enum_def)
  have c: "Orders_create cuid (flds\<lparr>f_status := Some (NotNull st)\<rparr>) s = (Inl ValidationError, s)"
    using nm
    by (simp add: Orders_create_def Let_def validate_order_def enum_validator_def new_Order_def
        default_def)
  have e1: "Orders_edit i (change\<lparr>f_status := Some (NotNull st)\<rparr>) s = (Inl ValidationError, s)"
    if "Orders_get i s = Some d" for d
  proof -
    have "status (assign_order (change\<lparr>f_status := Some (NotNull st)\<rparr>) d) = NotNull st"
      by (simp add: assign_order_def default_def)
    from invalid_status_invalid_order [OF this nm]
    have "\<not> validate_order (assign_order (change\<lparr>f_status := Some (NotNull st)\<rparr>) d)" .
    from Orders_edit_invalid [OF that this] show ?thesis .
  qed
  have e2: "Orders_get i s = None \<longrightarrow>
              Orders_edit i (change\<lparr>f_status := Some (NotNull st)\<rparr>) s = (Inl TypeError, s)"
    by (simp add: Orders_edit_absent)
  from c e1 e2 show ?thesis by (cases "Orders_get i s") auto
qed

text \<open>On the sample store: the payload that is accepted with the status \<open>PENDING\<close> is
  rejected with the status \<open>BOGUS\<close>, by \<^verbatim>\<open>create\<close> and by \<^verbatim>\<open>edit\<close>.\<close>

lemma invalid_status_rejected_example:
  "''BOGUS'' \<notin> {''CREATED'', ''PENDING'', ''COMPLETED''}
   \<and> Orders_get ''o1'' sample_db \<noteq> None
   \<and> Orders_edit ''o1'' (order_change_none\<lparr>f_status := Some (NotNull ''BOGUS'')\<rparr>) sample_db
       = (Inl ValidationError, sample_db)
   \<and> isl (fst (Orders_create ''o2'' (sample_order_fields\<lparr>f_status := Some (NotNull ''BOGUS'')\<rparr>)
                 sample_db)) 
   \<and> Orders_create ''o2'' (sample_order_fields\<lparr>f_status := Some (NotNull ''BOGUS'')\<rparr>) sample_db
       = (Inl ValidationError, sample_db)
   \<and> \<not> isl (fst (Orders_create ''o2'' (sample_order_fields\<lparr>f_status := Some (NotNull ''PENDING'')\<rparr>)
                   sample_db))
   \<and> \<not> isl (fst (Orders_edit ''o1'' (order_change_none\<lparr>f_status := Some (NotNull ''PENDING'')\<rparr>)
                   sample_db))"
proof -
  have h: "''BOGUS'' \<notin> {''CREATED'', ''PENDING'', ''COMPLETED''}" by simp
  have g: "Orders_get ''o1'' sample_db \<noteq> None" by code_simp
  have a: "\<not> isl (fst (Orders_create ''o2'' (sample_order_fields\<lparr>f_status := Some (NotNull ''PENDING'')\<rparr>)
                   sample_db))"
    by code_simp
  have b: "\<not> isl (fst (Orders_edit ''o1'' (order_change_none\<lparr>f_status := Some (NotNull ''PENDING'')\<rparr>)
                   sample_db))"
    by code_simp
  from invalid_status_rejected [OF h, of "''o2''" sample_order_fields sample_db "''o1''" order_change_none]
    h g a b show ?thesis by simp
qed

text \<open>
  Claim C1. For every order write, a status outside CREATED, PENDING, COMPLETED is to
  fail validation and not to be persisted; the schema says of the path that it only
  allows these values. For strings this holds (the lemma above). The value \<^verbatim>\<open>null\<close> is
  outside the set as well, and it is persisted: on the sample store, \<^verbatim>\<open>edit\<close> of the
  existing order \<open>o1\<close> with status \<^verbatim>\<open>null\<close> succeeds and the stored record loses its
  prior status \<open>CREATED\<close>, and \<^verbatim>\<open>create\<close> with status \<^verbatim>\<open>null\<close> stores a new order
  with that status.
\<close>

theorem null_status_is_persisted:
  "map_option status (Orders_get ''o1'' sample_db) = Some (NotNull ''CREATED'')
   \<and> map_sum id status
        (fst (Orders_edit ''o1'' (order_change_none\<lparr>f_status := Some Null\<rparr>) sample_db))
       = Inr Null
   \<and> map (\<lambda>e. (o_id e, status e))
        (Order_coll (snd (Orders_edit ''o1'' (order_change_none\<lparr>f_status := Some Null\<rparr>) sample_db)))
       = [(''o1'', Null)]
   \<and> map_option status
        (Orders_get ''o1'' (snd (Orders_edit ''o1'' (order_change_none\<lparr>f_status := Some Null\<rparr>) sample_db)))
       = Some Null
   \<and> map_sum id status
        (fst (Orders_create ''o2'' (sample_order_fields\<lparr>f_status := Some Null\<rparr>) sample_db))
       = Inr Null
   \<and> map_option status
        (Orders_get ''o2''
           (snd (Orders_create ''o2'' (sample_order_fields\<lparr>f_status := Some Null\<rparr>) sample_db)))
       = Some Null"
  by code_simp

section \<open>The unique-identifier invariant\<close>

text \<open>Every operation that writes keeps the identifiers of a collection distinct, so
  every store reached from the empty one is well-formed.\<close>

lemma map_o_id_save_order: "map o_id (save_order d coll) = map o_id coll"
  unfolding save_order_def by (induction coll) (auto simp: stored_order_def)

lemma distinct_insertOne:
  "distinct (map key coll) \<Longrightarrow> insertOne key d coll = Inr coll' \<Longrightarrow> distinct (map key coll')"
  by (fastforce simp: insertOne_def list_ex_iff split: if_splits)

lemma wf_db_empty: "wf_db empty_db"
  by (simp add: wf_db_def empty_db_def)

lemma wf_db_Products_create: "wf_db s \<Longrightarrow> wf_db (snd (Products_create cuid oid flds s))"
  by (auto simp: wf_db_def Products_create_def Let_def dest: distinct_insertOne split: sum.splits)

lemma wf_db_Products_edit: "wf_db s \<Longrightarrow> wf_db (snd (Products_edit oid i change s))"
  by (simp add: wf_db_def Products_edit_frame)

lemma wf_db_Orders_create: "wf_db s \<Longrightarrow> wf_db (snd (Orders_create cuid flds s))"
  by (auto simp: wf_db_def Orders_create_def Let_def dest: distinct_insertOne split: sum.splits)

lemma wf_db_Orders_edit: "wf_db s \<Longrightarrow> wf_db (snd (Orders_edit i change s))"
  by (auto simp: wf_db_def Orders_edit_def Let_def map_o_id_save_order split: option.splits)

section \<open>Editing: absent and present identifiers\<close>

text \<open>
  What \<^verbatim>\<open>edit\<close> does, in both services. For an identifier that is absent from the
  collection it fails with the TypeError raised on the \<^verbatim>\<open>null\<close> that \<^verbatim>\<open>get\<close>
  returned, and persists nothing. For a present identifier it overwrites exactly the keys
  present in the change onto the loaded record (a given key replaces the whole path, an
  absent key leaves it), validates the result, and then either persists and returns the
  updated record, which \<^verbatim>\<open>get\<close> reads back (for an order, with its products
  expanded), or fails with a ValidationError and leaves the store as it was.
\<close>

lemma edit_overwrites_given_keys:
  "(Products_get i s = None \<longrightarrow> Products_edit oid i pc s = (Inl TypeError, s))
   \<and> (Orders_get i s = None \<longrightarrow> Orders_edit i oc s = (Inl TypeError, s))
   \<and> (Products_get i s = Some p \<longrightarrow>
        p_id (assign_product oid pc p) = i
      \<and> description (assign_product oid pc p)
          = (case f_description pc of None \<Rightarrow> description p | Some v \<Rightarrow> Some v)
      \<and> alt_description (assign_product oid pc p)
          = (case f_alt_description pc of None \<Rightarrow> alt_description p | Some v \<Rightarrow> Some v)
      \<and> likes (assign_product oid pc p) = (case f_likes pc of None \<Rightarrow> likes p | Some v \<Rightarrow> Some v)
      \<and> urls (assign_product oid pc p) = (case f_urls pc of None \<Rightarrow> urls p | Some v \<Rightarrow> v)
      \<and> links (assign_product oid pc p) = (case f_links pc of None \<Rightarrow> links p | Some v \<Rightarrow> v)
      \<and> user (assign_product oid pc p) = (case f_user pc of None \<Rightarrow> user p | Some v \<Rightarrow> v)
      \<and> tags (assign_product oid pc p)
          = (case f_tags pc of None \<Rightarrow> tags p | Some ts \<Rightarrow> new_tags oid ts)
      \<and> p_v (saved_version pc p (assign_product oid pc p))
          = (if tags_modified pc p then p_v p + 1 else p_v p)
      \<and> (if validate_product (assign_product oid pc p)
          then fst (Products_edit oid i pc s) = Inr (saved_version pc p (assign_product oid pc p))
             \<and> Products_get i (snd (Products_edit oid i pc s))
                 = Some (saved_version pc p (assign_product oid pc p))
          else Products_edit oid i pc s = (Inl ValidationError, s)))
   \<and> (Orders_get i s = Some d \<longrightarrow>
        o_id (assign_order oc d) = i
      \<and> buyerEmail (assign_order oc d)
          = (case f_buyerEmail oc of None \<Rightarrow> buyerEmail d | Some v \<Rightarrow> Some v)
      \<and> products (assign_order oc d)
          = (case f_products oc of None \<Rightarrow> products d | Some xs \<Rightarrow> Ids xs)
      \<and> status (assign_order oc d) = (case f_status oc of None \<Rightarrow> status d | Some v \<Rightarrow> v)
      \<and> (if validate_order (assign_order oc d)
          then fst (Orders_edit i oc s) = Inr (assign_order oc d)
             \<and> Orders_get i (snd (Orders_edit i oc s)) = Some (populate_order s (assign_order oc d))
          else Orders_edit i oc s = (Inl ValidationError, s)))"
proof (intro conjI impI)
  assume "Products_get i s = None"
  then show "Products_edit oid i pc s = (Inl TypeError, s)" by (rule Products_edit_absent)
next
  assume "Orders_get i s = None"
  then show "Orders_edit i oc s = (Inl TypeError, s)" by (rule Orders_edit_absent)
next
  assume g: "Products_get i s = Some p"
  show "p_id (assign_product oid pc p) = i"
    using Products_get_p_id [OF g] by (simp add: p_id_assign_product)
  then have i: "p_id (assign_product oid pc p) = i" .
  have i': "p_id (saved_version pc p (assign_product oid pc p)) = i"
    using i by (simp add: p_id_saved_version)
  show "if validate_product (assign_product oid pc p)
        then fst (Products_edit oid i pc s) = Inr (saved_version pc p (assign_product oid pc p))
           \<and> Products_get i (snd (Products_edit oid i pc s))
               = Some (saved_version pc p (assign_product oid pc p))
        else Products_edit oid i pc s = (Inl ValidationError, s)"
  proof (cases "validate_product (assign_product oid pc p)")
    case True
    then show ?thesis
      using Products_edit_valid [OF g True] Products_get_after_update [OF g i'] by simp
  next
    case False
    then show ?thesis using Products_edit_invalid [OF g False] by simp
  qed
next
  assume g: "Orders_get i s = Some d"
  show "o_id (assign_order oc d) = i"
    using Orders_get_Some_D [OF g] by (auto simp: assign_order_def)
  show "if validate_order (assign_order oc d)
        then fst (Orders_edit i oc s) = Inr (assign_order oc d)
           \<and> Orders_get i (snd (Orders_edit i oc s)) = Some (populate_order s (assign_order oc d))
        else Orders_edit i oc s = (Inl ValidationError, s)"
  proof (cases "validate_order (assign_order oc d)")
    case True
    then show ?thesis
      using Orders_edit_valid [OF g True] Orders_get_after_edit [OF g True] by simp
  next
    case False
    then show ?thesis using Orders_edit_invalid [OF g False] by simp
  qed
qed (simp_all add: assign_product_def assign_order_def default_def saved_version_def)

lemma edit_overwrites_given_keys_example:
  "Products_get ''zz'' sample_db = None
   \<and> Products_edit sample_oid ''zz'' (no_change\<lparr>f_likes := Some 1\<rparr>) sample_db = (Inl TypeError, sample_db)
   \<and> Orders_get ''zz'' sample_db = None
   \<and> Orders_edit ''zz'' (order_change_none\<lparr>f_status := Some (NotNull ''PENDING'')\<rparr>) sample_db
       = (Inl TypeError, sample_db)
   \<and> Products_get ''p1'' sample_db = Some sample_product
   \<and> validate_product (assign_product sample_oid (no_change\<lparr>f_likes := Some 1\<rparr>) sample_product)
   \<and> likes (assign_product sample_oid (no_change\<lparr>f_likes := Some 1\<rparr>) sample_product) = Some 1
   \<and> tags (assign_product sample_oid (no_change\<lparr>f_likes := Some 1\<rparr>) sample_product) = tags sample_product
   \<and> Products_get ''p1'' (snd (Products_edit sample_oid ''p1'' (no_change\<lparr>f_likes := Some 1\<rparr>) sample_db))
       = Some (assign_product sample_oid (no_change\<lparr>f_likes := Some 1\<rparr>) sample_product)
   \<and> Orders_get ''o1'' sample_db = Some sample_order_doc
   \<and> validate_order (assign_order (order_change_none\<lparr>f_status := Some (NotNull ''PENDING'')\<rparr>) sample_order_doc)
   \<and> fst (Orders_edit ''o1'' (order_change_none\<lparr>f_status := Some (NotNull ''PENDING'')\<rparr>) sample_db)
       = Inr (assign_order (order_change_none\<lparr>f_status := Some (NotNull ''PENDING'')\<rparr>) sample_order_doc)
   \<and> status (assign_order (order_change_none\<lparr>f_status := Some (NotNull ''PENDING'')\<rparr>) sample_order_doc)
       = NotNull ''PENDING''"
proof -
  have o: "Orders_get ''o1'' sample_db = Some sample_order_doc" by code_simp
  have w: "validate_order (assign_order (order_change_none\<lparr>f_status := Some (NotNull ''PENDING'')\<rparr>) sample_order_doc)"
    by code_simp
  have k: "f_status (order_change_none\<lparr>f_status := Some (NotNull ''PENDING'')\<rparr>) = Some (NotNull ''PENDING'')"
    by simp
  have a: "Products_get ''zz'' sample_db = None" by code_simp
  have b: "Orders_get ''zz'' sample_db = None" by code_simp
  have c: "Products_get ''p1'' sample_db = Some sample_product" by code_simp
  have v: "validate_product (assign_product sample_oid (no_change\<lparr>f_likes := Some 1\<rparr>) sample_product)"
    by code_simp
  have f: "f_likes (no_change\<lparr>f_likes := Some 1\<rparr>) = Some 1"
    "f_tags (no_change\<lparr>f_likes := Some 1\<rparr>) = None"
    by (simp_all add: no_change_def)
  from edit_overwrites_given_keys [where i = "''zz''" and s = sample_db and oid = sample_oid
      and pc = "no_change\<lparr>f_likes := Some 1\<rparr>"
      and oc = "order_change_none\<lparr>f_status := Some (NotNull ''PENDING'')\<rparr>"]
    edit_overwrites_given_keys [where i = "''p1''" and s = sample_db and oid = sample_oid
      and pc = "no_change\<lparr>f_likes := Some 1\<rparr>" and p = sample_product]
    edit_overwrites_given_keys [where i = "''o1''" and s = sample_db
      and oc = "order_change_none\<lparr>f_status := Some (NotNull ''PENDING'')\<rparr>"
      and d = sample_order_doc]
    a b c v o w
  show ?thesis by (simp add: f k saved_version_no_tags)
qed

text \<open>
  Claim C2. For an identifier that is absent from the collection, \<^verbatim>\<open>edit\<close> of the
  product service and of the order service is to fail with a NotFoundError; for a present
  identifier it overwrites the given keys, validates, persists and returns the record
  (the lemma above). On the sample store, which has no record \<open>zz\<close>, the failure of both
  services is a TypeError instead: \<^verbatim>\<open>edit\<close> uses the result of \<^verbatim>\<open>get\<close> without
  testing it for \<^verbatim>\<open>null\<close>, as the handler \<^verbatim>\<open>getProduct\<close> does.
\<close>

theorem edit_absent_id_raises_TypeError:
  "Products_get ''zz'' sample_db = None
   \<and> fst (Products_edit sample_oid ''zz'' (no_change\<lparr>f_likes := Some 1\<rparr>) sample_db) = Inl TypeError
   \<and> fst (Products_edit sample_oid ''zz'' (no_change\<lparr>f_likes := Some 1\<rparr>) sample_db) \<noteq> Inl NotFoundError
   \<and> Orders_get ''zz'' sample_db = None
   \<and> fst (Orders_edit ''zz'' (order_change_none\<lparr>f_status := Some (NotNull ''PENDING'')\<rparr>) sample_db) = Inl TypeError
   \<and> fst (Orders_edit ''zz'' (order_change_none\<lparr>f_status := Some (NotNull ''PENDING'')\<rparr>) sample_db)
       \<noteq> Inl NotFoundError"
  by code_simp

section \<open>Orders: expansion of products and the default status\<close>

lemma populate_all_present:
  "\<forall>pid\<in>set ids. Products_get pid s \<noteq> None \<Longrightarrow>
     map Some (populate s ids) = map (\<lambda>pid. Products_get pid s) ids"
  unfolding populate_def Products_get_def
  by (induction ids) (auto simp: map_filter_simps split: option.splits)

lemma populate_order_Order_coll_update:
  "populate_order (s\<lparr>Order_coll := c\<rparr>) d = populate_order s d"
  by (simp add: populate_order_def populate_Order_coll_update split: product_refs.splits)

lemma Orders_get_o_id: "Orders_get i s = Some d \<Longrightarrow> o_id d = i"
  by (drule Orders_get_Some_D) auto

lemma Orders_create_ok:
  assumes "validate_order (new_Order cuid flds)" and "cuid \<notin> o_id ` set (Order_coll s)"
  shows "Orders_create cuid flds s =
           (Inr (populate_order s (new_Order cuid flds)),
            s\<lparr>Order_coll := Order_coll s @ [stored_order [] (new_Order cuid flds)]\<rparr>)"
proof -
  have id: "o_id (stored_order [] (new_Order cuid flds)) = cuid"
    by (simp add: new_Order_def stored_order_def)
  from assms(2) have "\<not> list_ex (\<lambda>e. o_id e = cuid) (Order_coll s)"
    by (auto simp: list_ex_iff)
  then show ?thesis using assms(1) id
    by (simp add: Orders_create_def insertOne_def Let_def populate_order_Order_coll_update)
qed

lemma Orders_get_after_create:
  assumes "validate_order (new_Order cuid flds)" and "cuid \<notin> o_id ` set (Order_coll s)"
  shows "Orders_get cuid (snd (Orders_create cuid flds s)) = Some (populate_order s (new_Order cuid flds))"
proof -
  let ?e = "stored_order [] (new_Order cuid flds)"
  have id: "o_id ?e = cuid" by (simp add: new_Order_def stored_order_def)
  from assms(2) have "\<not> list_ex (\<lambda>e. o_id e = o_id ?e) (Order_coll s)"
    by (auto simp: list_ex_iff id)
  from findById_append_fresh [OF this]
  have "findById o_id cuid (Order_coll s @ [?e]) = Some ?e" by (simp add: id)
  then show ?thesis
    by (simp add: Orders_create_ok [OF assms] Orders_get_def populate_order_def load_order_def
        stored_order_def new_Order_def populate_Order_coll_update)
qed

lemma populate_present_entries:
  "map Some (populate s ids) = filter (\<lambda>r. r \<noteq> None) (map (\<lambda>pid. Products_get pid s) ids)"
  unfolding populate_def Products_get_def
  by (induction ids) (auto simp: map_filter_simps split: option.splits)

text \<open>
  Claim C8 (amended). For every order, \<^verbatim>\<open>Orders.get\<close> returns the order with its
  \<open>products\<close> replaced by the full product records of its entries, in order: an entry
  whose identifier matches an existing product becomes the record that \<^verbatim>\<open>Products.get\<close>
  reads for it, an entry that matches no product is left out, so when every entry matches
  each entry is expanded. The result of \<^verbatim>\<open>Orders.create\<close> is expanded in the same
  way, \<^verbatim>\<open>Orders.get\<close> on the new identifier reads the same order back, and its status is
  \<open>CREATED\<close> when the payload gives none.
\<close>

theorem order_products_expanded:
  "map Some (populate s ids) = filter (\<lambda>r. r \<noteq> None) (map (\<lambda>pid. Products_get pid s) ids)
   \<and> ((\<forall>pid\<in>set ids. Products_get pid s \<noteq> None)
        \<longrightarrow> map Some (populate s ids) = map (\<lambda>pid. Products_get pid s) ids)
   \<and> (findById o_id i (Order_coll s) = Some e
        \<longrightarrow> map_option o_id (Orders_get i s) = Some i
          \<and> map_option buyerEmail (Orders_get i s) = Some (buyerEmail e)
          \<and> map_option status (Orders_get i s) = Some (status e)
          \<and> map_option products (Orders_get i s) = Some (Populated (populate s (products e))))
   \<and> (validate_order (new_Order cuid flds) \<and> cuid \<notin> o_id ` set (Order_coll s)
        \<longrightarrow> map_sum id o_id (fst (Orders_create cuid flds s)) = Inr cuid
          \<and> map_sum id buyerEmail (fst (Orders_create cuid flds s)) = Inr (f_buyerEmail flds)
          \<and> map_sum id status (fst (Orders_create cuid flds s))
              = Inr (case f_status flds of None \<Rightarrow> NotNull ''CREATED'' | Some v \<Rightarrow> v)
          \<and> map_sum id products (fst (Orders_create cuid flds s))
              = Inr (Populated (populate s (case f_products flds of None \<Rightarrow> [] | Some xs \<Rightarrow> xs)))
          \<and> map_option Inr (Orders_get cuid (snd (Orders_create cuid flds s)))
              = Some (fst (Orders_create cuid flds s)))"
proof (intro conjI impI)
  show "map Some (populate s ids) = filter (\<lambda>r. r \<noteq> None) (map (\<lambda>pid. Products_get pid s) ids)"
    by (rule populate_present_entries)
next
  assume "\<forall>pid\<in>set ids. Products_get pid s \<noteq> None"
  then show "map Some (populate s ids) = map (\<lambda>pid. Products_get pid s) ids"
    by (rule populate_all_present)
next
  assume a: "findById o_id i (Order_coll s) = Some e"
  from findById_Some_D [OF a] have "o_id e = i" by simp
  then have g: "Orders_get i s = Some \<lparr>o_id = i, buyerEmail = buyerEmail e,
                  products = Populated (populate s (products e)), status = status e\<rparr>"
    using Orders_get_present [OF a] by simp
  show "map_option o_id (Orders_get i s) = Some i" by (simp add: g)
  show "map_option buyerEmail (Orders_get i s) = Some (buyerEmail e)" by (simp add: g)
  show "map_option status (Orders_get i s) = Some (status e)" by (simp add: g)
  show "map_option products (Orders_get i s) = Some (Populated (populate s (products e)))"
    by (simp add: g)
next
  assume b: "validate_order (new_Order cuid flds) \<and> cuid \<notin> o_id ` set (Order_coll s)"
  then have v: "validate_order (new_Order cuid flds)" and f: "cuid \<notin> o_id ` set (Order_coll s)"
    by simp_all
  have r: "populate_order s (new_Order cuid flds)
           = \<lparr>o_id = cuid, buyerEmail = f_buyerEmail flds,
              products = Populated (populate s (case f_products flds of None \<Rightarrow> [] | Some xs \<Rightarrow> xs)),
              status = (case f_status flds of None \<Rightarrow> NotNull ''CREATED'' | Some v \<Rightarrow> v)\<rparr>"
    by (simp add: populate_order_def new_Order_def default_def)
  have c: "fst (Orders_create cuid flds s) = Inr (populate_order s (new_Order cuid flds))"
    by (simp add: Orders_create_ok [OF v f])
  show "map_sum id o_id (fst (Orders_create cuid flds s)) = Inr cuid"
    by (simp add: c r)
  show "map_sum id buyerEmail (fst (Orders_create cuid flds s)) = Inr (f_buyerEmail flds)"
    by (simp add: c r)
  show "map_sum id status (fst (Orders_create cuid flds s))
          = Inr (case f_status flds of None \<Rightarrow> NotNull ''CREATED'' | Some v \<Rightarrow> v)"
    by (simp add: c r)
  show "map_sum id products (fst (Orders_create cuid flds s))
          = Inr (Populated (populate s (case f_products flds of None \<Rightarrow> [] | Some xs \<Rightarrow> xs)))"
    by (simp add: c r)
  show "map_option Inr (Orders_get cuid (snd (Orders_create cuid flds s)))
          = Some (fst (Orders_create cuid flds s))"
    by (simp add: c Orders_get_after_create [OF v f])
qed

theorem order_products_expanded_witness:
  "findById o_id ''o3'' (Order_coll dangling_db) = Some sample_order_dangling
   \<and> map (\<lambda>pid. Products_get pid dangling_db) (products sample_order_dangling)
       = [None, Some sample_product]
   \<and> map_option products (Orders_get ''o3'' dangling_db) = Some (Populated [sample_product])
   \<and> map_option status (Orders_get ''o3'' dangling_db) = Some (NotNull ''PENDING'')
   \<and> Products_get ''p1'' sample_db \<noteq> None
   \<and> map Some (populate sample_db [''p1'']) = [Products_get ''p1'' sample_db]
   \<and> validate_order (new_Order ''o2'' sample_order_fields)
   \<and> ''o2'' \<notin> o_id ` set (Order_coll sample_db)
   \<and> map_sum id products (fst (Orders_create ''o2'' sample_order_fields sample_db))
       = Inr (Populated [sample_product])
   \<and> map_sum id status (fst (Orders_create ''o2'' sample_order_fields sample_db))
       = Inr (NotNull ''CREATED'')
   \<and> map_option Inr (Orders_get ''o2'' (snd (Orders_create ''o2'' sample_order_fields sample_db)))
       = Some (fst (Orders_create ''o2'' sample_order_fields sample_db))"
proof -
  have f: "findById o_id ''o3'' (Order_coll dangling_db) = Some sample_order_dangling"
    by code_simp
  have m: "map (\<lambda>pid. Products_get pid dangling_db) (products sample_order_dangling)
             = [None, Some sample_product]"
    by code_simp
  have e: "status sample_order_dangling = NotNull ''PENDING''"
    by (simp add: sample_order_dangling_def)
  have g: "Products_get ''p1'' sample_db \<noteq> None" by code_simp
  have v: "validate_order (new_Order ''o2'' sample_order_fields)" by code_simp
  have n: "''o2'' \<notin> o_id ` set (Order_coll sample_db)" by code_simp
  have d: "f_products sample_order_fields = Some [''p1'']" "f_status sample_order_fields = None"
    by (simp_all add: sample_order_fields_def)
  have p: "populate sample_db [''p1''] = [sample_product]" by code_simp
  note A = order_products_expanded [of dangling_db "products sample_order_dangling" "''o3''"
      sample_order_dangling "''o2''" sample_order_fields]
  note B = order_products_expanded [of sample_db "[''p1'']" "''o1''" sample_order "''o2''"
      sample_order_fields]
  from A f have a1: "map_option products (Orders_get ''o3'' dangling_db)
             = Some (Populated (populate dangling_db (products sample_order_dangling)))"
    and a2: "map_option status (Orders_get ''o3'' dangling_db) = Some (NotNull ''PENDING'')"
    by (simp_all add: e)
  from A have a3: "map Some (populate dangling_db (products sample_order_dangling))
             = filter (\<lambda>r. r \<noteq> None) [None, Some sample_product]"
    by (simp only: m)
  then have "map Some (populate dangling_db (products sample_order_dangling)) = map Some [sample_product]"
    by simp
  then have a4: "populate dangling_db (products sample_order_dangling) = [sample_product]"
    by (simp only: inj_map_eq_map [OF inj_Some])
  from B g have b1: "map Some (populate sample_db [''p1'']) = [Products_get ''p1'' sample_db]"
    by simp
  from B v n have b2:
    "map_sum id products (fst (Orders_create ''o2'' sample_order_fields sample_db))
       = Inr (Populated [sample_product])"
    "map_sum id status (fst (Orders_create ''o2'' sample_order_fields sample_db))
       = Inr (NotNull ''CREATED'')"
    "map_option Inr (Orders_get ''o2'' (snd (Orders_create ''o2'' sample_order_fields sample_db)))
       = Some (fst (Orders_create ''o2'' sample_order_fields sample_db))"
    by (simp_all add: d p)
  from f m a1 a2 a4 g b1 v n b2 show ?thesis by simp
qed

text \<open>
  The claim as stated fails for an order with an entry that references no product: the
  order \<open>o3\<close> has the two entries \<open>zz\<close> and \<open>p1\<close>, and \<^verbatim>\<open>Orders.get\<close> returns it with the
  one record of \<open>p1\<close>, so the entry \<open>zz\<close> is not expanded into a product record; the
  result of \<^verbatim>\<open>Orders.create\<close> with the same entries is the same.
\<close>

theorem order_products_expanded_counterexample:
  "map_option products (findById o_id ''o3'' (Order_coll dangling_db)) = Some [''zz'', ''p1'']
   \<and> Products_get ''zz'' dangling_db = None
   \<and> map_option products (Orders_get ''o3'' dangling_db) = Some (Populated [sample_product])
   \<and> length [sample_product] \<noteq> length [''zz'', ''p1'']
   \<and> map_sum id products (fst (Orders_create ''o4'' sample_order_fields_dangling dangling_db))
       = Inr (Populated [sample_product])"
  by code_simp

section \<open>Orders: required fields on creation\<close>

lemma Orders_create_requires_buyerEmail:
  "\<not> required_string (f_buyerEmail flds) \<Longrightarrow> Orders_create cuid flds s = (Inl ValidationError, s)"
  by (simp add: Orders_create_def Let_def validate_order_def new_Order_def)

text \<open>
  Claim C3. \<^verbatim>\<open>Orders.create\<close> fails with a ValidationError when \<open>buyerEmail\<close> is
  missing (the lemma above). For an empty \<open>products\<close> sequence the schema comment says
  that each order must have at least one product, but the validator it declares runs per
  element: the order below, created with an empty sequence, is persisted and returned.
\<close>

theorem create_order_without_products:
  "Orders_create ''o2'' \<lparr>f_buyerEmail = Some ''a@b.com'', f_products = Some [], f_status = None\<rparr> empty_db
     = (Inr \<lparr>o_id = ''o2'', buyerEmail = Some ''a@b.com'', products = Populated [], status = NotNull ''CREATED''\<rparr>,
        \<lparr>Product_coll = [],
         Order_coll = [\<lparr>o_id = ''o2'', buyerEmail = Some ''a@b.com'', products = [], status = NotNull ''CREATED''\<rparr>]\<rparr>)"
  by code_simp

section \<open>Delete handlers\<close>

text \<open>
  Claim C4 (amended). The order delete handler answers \<^verbatim>\<open>{success: true}\<close>; the product
  delete handler answers the deletion result that \<^verbatim>\<open>Products.destroy\<close> returned, an
  object with the number of deleted records (1 when the product existed, 0 otherwise).
\<close>

theorem delete_response_bodies:
  "fst (deleteOrder i s) = JObject [(''success'', JBool True)]
   \<and> snd (deleteOrder i s) = Orders_destroy i s
   \<and> fst (deleteProduct i s)
       = JObject [(''acknowledged'', JBool True),
                  (''deletedCount'', JNumber (if Products_get i s = None then 0 else 1))]
   \<and> snd (deleteProduct i s) = snd (Products_destroy i s)"
  by (auto simp: deleteOrder_def deleteProduct_def Products_destroy_def deleteOne_def
      delete_result_json_def Products_get_def findById_None_iff list_ex_iff image_iff)

theorem delete_response_bodies_witness:
  "Products_get ''p1'' sample_db \<noteq> None
   \<and> fst (deleteProduct ''p1'' sample_db)
       = JObject [(''acknowledged'', JBool True), (''deletedCount'', JNumber 1)]
   \<and> Products_get ''zz'' sample_db = None
   \<and> fst (deleteProduct ''zz'' sample_db)
       = JObject [(''acknowledged'', JBool True), (''deletedCount'', JNumber 0)]
   \<and> fst (deleteOrder ''o1'' sample_db) = JObject [(''success'', JBool True)]"
proof -
  have a: "Products_get ''p1'' sample_db \<noteq> None" by code_simp
  have b: "Products_get ''zz'' sample_db = None" by code_simp
  from delete_response_bodies [of "''p1''" sample_db] delete_response_bodies [of "''zz''" sample_db]
    delete_response_bodies [of "''o1''" sample_db] a b
  show ?thesis by simp
qed

text \<open>
  The claim as stated fails for the product handler: the body it sends for an existing
  product is not \<^verbatim>\<open>{success: true}\<close>.
\<close>

theorem delete_product_body_counterexample:
  "fst (deleteProduct ''p1'' sample_db) \<noteq> JObject [(''success'', JBool True)]"
  by code_simp

section \<open>Listing\<close>

lemma product_query_given:
  "tg \<noteq> Some '''' \<Longrightarrow>
     product_query tg = (\<lambda>p. case tg of None \<Rightarrow> True | Some t \<Rightarrow> \<exists>x\<in>set (tags p). title x = Some t)"
  by (cases tg) (auto simp: product_query_def tags_elemMatch_def list_ex_iff fun_eq_iff)

lemma sorted_page: "sorted (map key docs) \<Longrightarrow> sorted (map key (take n (drop m docs)))"
proof -
  assume "sorted (map key docs)"
  then have "sorted (drop m (map key docs))" by (rule sorted_wrt_drop)
  then have "sorted (take n (drop m (map key docs)))" by (rule sorted_wrt_take)
  then show ?thesis by (simp add: take_map drop_map)
qed

text \<open>
  Claim C5 (amended). For a positive limit (25 when none is given) and a tag that is
  absent or not the empty string, \<^verbatim>\<open>Products.list\<close> returns a page of the matching
  products: there is a list of exactly the products of the collection that match (all of
  them without a tag; with a tag, those whose \<open>tags\<close> have an entry with that title,
  compared as strings), sorted by identifier ascending, of which the result skips the
  first \<open>offset\<close> (0 when none is given) and keeps at most \<open>limit\<close>. The result is
  sorted by identifier and no longer than the limit.
\<close>

theorem Products_list_page:
  assumes "tag po \<noteq> Some ''''" and "0 < default 25 (limit po)"
  shows "\<exists>all. sorted (map p_id all)
           \<and> mset all = filter_mset
                 (\<lambda>p. case tag po of None \<Rightarrow> True | Some t \<Rightarrow> \<exists>x\<in>set (tags p). title x = Some t)
                 (mset (Product_coll s))
           \<and> Products_list po s = take (default 25 (limit po)) (drop (default 0 (offset po)) all)
           \<and> length (Products_list po s) \<le> default 25 (limit po)
           \<and> sorted (map p_id (Products_list po s))"
proof -
  let ?all = "sort_key p_id (filter (product_query (tag po)) (Product_coll s))"
  have s: "sorted (map p_id ?all)" by simp
  have m: "mset ?all = filter_mset
             (\<lambda>p. case tag po of None \<Rightarrow> True | Some t \<Rightarrow> \<exists>x\<in>set (tags p). title x = Some t)
             (mset (Product_coll s))"
    by (simp add: product_query_given [OF assms(1)])
  have l: "Products_list po s = take (default 25 (limit po)) (drop (default 0 (offset po)) ?all)"
    using assms(2) by (simp add: Products_list_def Let_def limit_docs_def skip_def sort_by_id_def)
  have n: "length (Products_list po s) \<le> default 25 (limit po)"
    unfolding l by simp
  have t: "sorted (map p_id (Products_list po s))"
    unfolding l using s by (rule sorted_page)
  from s m l n t show ?thesis by blast
qed

theorem Products_list_page_witness:
  "tag \<lparr>offset = None, limit = Some 1, tag = Some ''studio''\<rparr> \<noteq> Some ''''
   \<and> 0 < default 25 (limit \<lparr>offset = None, limit = Some 1, tag = Some ''studio''\<rparr>)
   \<and> length (Products_list \<lparr>offset = None, limit = Some 1, tag = Some ''studio''\<rparr> sample_db) \<le> 1
   \<and> sorted (map p_id (Products_list \<lparr>offset = None, limit = Some 1, tag = Some ''studio''\<rparr> sample_db))
   \<and> Products_list \<lparr>offset = None, limit = Some 1, tag = Some ''studio''\<rparr> sample_db = [sample_product]"
proof -
  let ?po = "\<lparr>offset = None, limit = Some 1, tag = Some ''studio''\<rparr>"
  have a: "tag ?po \<noteq> Some ''''" by simp
  have b: "0 < default 25 (limit ?po)" by (simp add: default_def)
  have d: "default 25 (limit ?po) = 1" by (simp add: default_def)
  have v: "Products_list ?po sample_db = [sample_product]" by code_simp
  from Products_list_page [OF a b, of sample_db]
  have "length (Products_list ?po sample_db) \<le> 1 \<and> sorted (map p_id (Products_list ?po sample_db))"
    unfolding d by blast
  with a b v show ?thesis by blast
qed

text \<open>
  The claim as stated fails in two places: a limit of 0 is no limit (two products are
  returned), and the empty string as tag restricts nothing (a product without a tag of
  that title is returned).
\<close>

theorem Products_list_counterexample:
  "\<not> length (Products_list \<lparr>offset = Some 0, limit = Some 0, tag = None\<rparr> sample_db) \<le> 0
   \<and> Products_list \<lparr>offset = Some 0, limit = Some 25, tag = Some ''''\<rparr> sample_db
       = [sample_product, sample_product\<lparr>p_id := ''p2'', tags := []\<rparr>]
   \<and> \<not> list_ex (\<lambda>x. title x = Some '''') (tags sample_product)"
  by code_simp

text \<open>
  Claim C10. An empty string given for \<open>tag\<close> (products) or for \<open>productId\<close> or
  \<open>status\<close> (orders) is treated as an absent filter: the result is the one obtained
  without the parameter, which is the unfiltered collection, sorted, skipped and limited.
\<close>

theorem empty_filter_is_absent:
  "Products_list (po\<lparr>tag := Some ''''\<rparr>) s = Products_list (po\<lparr>tag := None\<rparr>) s
   \<and> Products_list (po\<lparr>tag := None\<rparr>) s
       = limit_docs (default 25 (limit po)) (skip (default 0 (offset po)) (sort_by_id p_id (Product_coll s)))
   \<and> Orders_list (oo\<lparr>productId := Some ''''\<rparr>) s = Orders_list (oo\<lparr>productId := None\<rparr>) s
   \<and> Orders_list (oo\<lparr>o_status := Some ''''\<rparr>) s = Orders_list (oo\<lparr>o_status := None\<rparr>) s
   \<and> Orders_list (oo\<lparr>productId := Some '''', o_status := Some ''''\<rparr>) s
       = limit_docs (default 25 (o_limit oo)) (skip (default 0 (o_offset oo)) (sort_by_id o_id (Order_coll s)))"
  by (simp add: Products_list_def Orders_list_def product_query_def productQuery_def statusQuery_def)

end
